theory Spec2Isabelle
  imports Complex_Main "HOL-Library.Sublist"
begin

section \<open>Errors and replies\<close>

text \<open>
  Modelled from the spec: \<^verbatim>\<open>utils/ExpressError.js\<close> and \<^verbatim>\<open>utils/catchAsync.js\<close> are not
  among the sources. Every failure carries a human message and an optional status code
  (\<^verbatim>\<open>new ExpressError(message, statusCode)\<close>); \<open>None\<close> is a call that passes no code.
  \<open>TypeError\<close> is the exception JavaScript raises when a property of \<^verbatim>\<open>undefined\<close> is
  read inside a handler; the handler stops there. \<open>LibraryError\<close> is an exception raised
  inside a call of a library (\<^verbatim>\<open>db.ref\<close>, \<^verbatim>\<open>push\<close>, \<^verbatim>\<open>User.findOne\<close>,
  \<^verbatim>\<open>new FaceMatcher\<close>); the handler stops there too.
\<close>

datatype error = ExpressError string "nat option" | TypeError | LibraryError

text \<open>
  The final error middleware of \<^verbatim>\<open>index.js\<close>: \<^verbatim>\<open>const { statusCode = 500 } = err\<close>.
  Status 404 is the spec's NotFound, 409 its Conflict, 401 its Unauthorized.
\<close>

definition response_status :: "error \<Rightarrow> nat" where
  "response_status err =
     (case err of
        ExpressError msg (Some statusCode) \<Rightarrow> statusCode
      | _ \<Rightarrow> 500)"

text \<open>The result of \<^verbatim>\<open>faceMatcher.findBestMatch\<close>: a label and the distance it was found at.\<close>

record face_match =
  match_label :: string
  distance :: real

datatype reply = Send string | SuccessMessage string | Results "face_match list"

section \<open>The realtime database\<close>

text \<open>
  Modelled from the spec: \<^verbatim>\<open>firebase.js\<close> is not among the sources. The key-value store is
  path-addressed tree storage with \<^verbatim>\<open>exists\<close>, \<^verbatim>\<open>get\<close> and \<^verbatim>\<open>set(path, value|null)\<close>.
  The tree is kept as the list of its leaves, each under its path, in the order they were
  written. A path is a list of keys: the pieces of a path string, or the key \<^verbatim>\<open>push\<close> makes
  up, which no path string names. An array and a pushed object are one leaf each.
\<close>

datatype key = Key string | PushId nat

type_synonym path = "key list"

record location =
  lat :: real
  lng :: real
  time :: nat

datatype node = Str string | Bool bool | Labels "string list" | Report location

type_synonym database = "(path \<times> node) list"

text \<open>What \<^verbatim>\<open>once("value")\<close> resolves to: nothing, a leaf, or an object with children.\<close>

datatype snapshot = Absent | Leaf node | Object

text \<open>
  \<^verbatim>\<open>db.ref(pathString)\<close> raises unless the string is non-empty and free of the characters
  \<^verbatim>\<open>[ ] . # $\<close> and of control characters; it then splits the string at every \<^verbatim>\<open>/\<close> and
  drops the empty pieces.
\<close>

definition invalid_path_character :: "char \<Rightarrow> bool" where
  "invalid_path_character c =
     (c \<in> set ''[].#$'' \<or> of_char c < (32 :: nat) \<or> of_char c = (127 :: nat))"

fun pieces :: "string \<Rightarrow> string list" where
  "pieces [] = [[]]"
| "pieces (c # cs) =
     (if c = CHR ''/'' then [] # pieces cs
      else (case pieces cs of
              piece # rest \<Rightarrow> (c # piece) # rest
            | [] \<Rightarrow> [[c]]))"

definition ref :: "string \<Rightarrow> error + path" where
  "ref pathString =
     (if pathString = [] \<or> list_ex invalid_path_character pathString then Inl LibraryError
      else Inr (map Key (filter (\<lambda>piece. piece \<noteq> []) (pieces pathString))))"

text \<open>
  Reading a path: the leaf stored there, an object when leaves are stored below it, and
  nothing otherwise (also below a leaf). \<^verbatim>\<open>exists()\<close> is \<open>\<noteq> Absent\<close>.
\<close>

definition once_value :: "database \<Rightarrow> path \<Rightarrow> snapshot" where
  "once_value db p =
     (case map_of db p of
        Some v \<Rightarrow> Leaf v
      | None \<Rightarrow> if list_ex (\<lambda>(q, v). prefix p q) db then Object else Absent)"

text \<open>
  \<^verbatim>\<open>set(value)\<close> replaces whatever is stored at the path and below it; a leaf stored above
  the path gives way to the object that now holds the new child. \<^verbatim>\<open>set(null)\<close> removes what
  is stored at the path and below it. \<^verbatim>\<open>push(value)\<close> sets the value under a key of its own
  making, later than every key made before.
\<close>

definition set_value :: "database \<Rightarrow> path \<Rightarrow> node \<Rightarrow> database" where
  "set_value db p v = filter (\<lambda>(q, w). \<not> prefix p q \<and> \<not> prefix q p) db @ [(p, v)]"

definition set_null :: "database \<Rightarrow> path \<Rightarrow> database" where
  "set_null db p = filter (\<lambda>(q, w). \<not> prefix p q) db"

fun push_ids :: "path \<Rightarrow> nat list" where
  "push_ids [] = []"
| "push_ids (Key k # p) = push_ids p"
| "push_ids (PushId n # p) = n # push_ids p"

definition new_push_id :: "database \<Rightarrow> nat" where
  "new_push_id db = Suc (fold max (concat (map (\<lambda>(q, v). push_ids q) db)) 0)"

definition push :: "database \<Rightarrow> path \<Rightarrow> node \<Rightarrow> database" where
  "push db p v = set_value db (p @ [PushId (new_push_id db)]) v"

text \<open>
  The string JavaScript makes of a value read from the database when the handler
  concatenates it into the next path.
\<close>

fun join_comma :: "string list \<Rightarrow> string" where
  "join_comma [] = []"
| "join_comma [x] = x"
| "join_comma (x # y # zs) = x @ '','' @ join_comma (y # zs)"

fun js_string :: "snapshot \<Rightarrow> string" where
  "js_string Absent = ''null''"
| "js_string (Leaf (Str s)) = s"
| "js_string (Leaf (Bool b)) = (if b then ''true'' else ''false'')"
| "js_string (Leaf (Labels ls)) = join_comma ls"
| "js_string (Leaf (Report r)) = ''[object Object]''"
| "js_string Object = ''[object Object]''"

text \<open>The reports pushed under a path, in push order.\<close>

fun pushed_child :: "path \<Rightarrow> path \<Rightarrow> bool" where
  "pushed_child p q =
     (case rev q of
        PushId n # r \<Rightarrow> rev r = p
      | _ \<Rightarrow> False)"

fun reports :: "database \<Rightarrow> path \<Rightarrow> location list" where
  "reports [] p = []"
| "reports ((q, v) # db) p =
     (case v of
        Report r \<Rightarrow> if pushed_child p q then r # reports db p else reports db p
      | _ \<Rightarrow> reports db p)"

section \<open>The document store\<close>

text \<open>
  Modelled from the spec: \<^verbatim>\<open>models/userModel.js\<close> is not among the sources. The document
  store is keyed by \<open>userId\<close>; a user record holds the user's face templates, each with the
  identifier the store assigned to it (\<^verbatim>\<open>_id\<close>), a label and its embeddings. The type
  \<open>'d\<close> is the embedding (a face descriptor), which the handlers only pass on.
\<close>

record 'd face =
  face_id :: nat
  label :: string
  descriptions :: "'d list"

record 'd user_doc =
  userId :: string
  faces :: "'d face list"

text \<open>
  Both stores. \<open>users\<close> holds the records by their \<open>userId\<close>; \<open>null_user\<close> is the record, if
  there is one, that \<^verbatim>\<open>User.findOne({ userId: null })\<close> finds.
\<close>

record 'd store =
  rtdb :: database
  users :: "string \<rightharpoonup> 'd user_doc"
  null_user :: "'d user_doc option"

type_synonym 'd outcome = "(error + reply) \<times> 'd store"

text \<open>The state before any call: both stores hold nothing.\<close>

definition empty_store :: "'d store" where
  "empty_store = \<lparr>rtdb = [], users = Map.empty, null_user = None\<rparr>"


section \<open>Binding registry\<close>

text \<open>
  The two lookups the handlers perform with \<^verbatim>\<open>once("value")\<close>, with the result as the
  string the handlers use; nothing for a path that holds nothing or that \<^verbatim>\<open>db.ref\<close> refuses.
\<close>

definition lookup :: "'d store \<Rightarrow> string \<Rightarrow> string option" where
  "lookup s pathString =
     (case ref pathString of
        Inl err \<Rightarrow> None
      | Inr p \<Rightarrow> (case once_value (rtdb s) p of Absent \<Rightarrow> None | v \<Rightarrow> Some (js_string v)))"

definition ResolveUserByDevice :: "'d store \<Rightarrow> string \<Rightarrow> string option" where
  "ResolveUserByDevice s deviceId = lookup s (''device-user/'' @ deviceId)"

definition ResolveDeviceByUser :: "'d store \<Rightarrow> string \<Rightarrow> string option" where
  "ResolveDeviceByUser s uid = lookup s (''users/'' @ uid @ ''/deviceId'')"

text \<open>
  The handler's "remove ownership from the old device id": \<open>result\<close> is what was read at
  \<^verbatim>\<open>users/<uid>/deviceId\<close>.
\<close>

definition remove_old_ownership :: "database \<Rightarrow> snapshot \<Rightarrow> error + database" where
  "remove_old_ownership db result =
     (if result = Absent then Inr db
      else case ref (''device-user/'' @ js_string result) of
             Inl err \<Rightarrow> Inl err
           | Inr old \<Rightarrow> Inr (set_null db old))"

text \<open>
  \<^verbatim>\<open>POST /deviceId\<close> (Rebind), for a call during which no other handler runs. \<open>uid\<close> is
  \<^verbatim>\<open>req.uid\<close>, set by the login middleware, and \<open>newDeviceId\<close> the string of the request
  body.
\<close>

definition post_deviceId :: "'d store \<Rightarrow> string \<Rightarrow> string \<Rightarrow> 'd outcome" where
  "post_deviceId s uid newDeviceId =
     (if length newDeviceId \<noteq> 6 then
        (Inl (ExpressError ''Device id must be 6 characters!'' None), s)
      else
        case ref (''device-user/'' @ newDeviceId) of
          Inl err \<Rightarrow> (Inl err, s)
        | Inr checkDeviceIdOwnerRef \<Rightarrow>
            if once_value (rtdb s) checkDeviceIdOwnerRef \<noteq> Absent then
              (Inl (ExpressError ''This id is already owned!'' (Some 409)), s)
            else
              case ref (''users/'' @ uid @ ''/deviceId'') of
                Inl err \<Rightarrow> (Inl err, s)
              | Inr checkOlderDeviceIdRef \<Rightarrow>
                  let result = once_value (rtdb s) checkOlderDeviceIdRef in
                  case remove_old_ownership (rtdb s) result of
                    Inl err \<Rightarrow> (Inl err, s)
                  | Inr db1 \<Rightarrow>
                      let db2 = set_value db1 checkOlderDeviceIdRef (Str newDeviceId);
                          db3 = set_value db2 checkDeviceIdOwnerRef (Str uid)
                      in (Inr (SuccessMessage ''Successfully updated''), s\<lparr>rtdb := db3\<rparr>))"

text \<open>
  The same handler cut at its two \<^verbatim>\<open>await\<close>s. A call has arrived, or waits for the read of
  the owner of the new device, or waits for the read of its user's old device, or has
  answered. A step resolves the pending read against the store as it is then and runs the
  handler up to its next \<^verbatim>\<open>await\<close>; other calls may step in between.
\<close>

datatype rebind_call =
    Arrived string string
  | AwaitOwner string string path
  | AwaitOlder string string path path
  | Answered "error + reply"

fun rebind_step :: "'d store \<Rightarrow> rebind_call \<Rightarrow> rebind_call \<times> 'd store" where
  "rebind_step s (Arrived uid newDeviceId) =
     (if length newDeviceId \<noteq> 6 then
        (Answered (Inl (ExpressError ''Device id must be 6 characters!'' None)), s)
      else
        case ref (''device-user/'' @ newDeviceId) of
          Inl err \<Rightarrow> (Answered (Inl err), s)
        | Inr checkDeviceIdOwnerRef \<Rightarrow> (AwaitOwner uid newDeviceId checkDeviceIdOwnerRef, s))"
| "rebind_step s (AwaitOwner uid newDeviceId checkDeviceIdOwnerRef) =
     (if once_value (rtdb s) checkDeviceIdOwnerRef \<noteq> Absent then
        (Answered (Inl (ExpressError ''This id is already owned!'' (Some 409))), s)
      else
        case ref (''users/'' @ uid @ ''/deviceId'') of
          Inl err \<Rightarrow> (Answered (Inl err), s)
        | Inr checkOlderDeviceIdRef \<Rightarrow>
            (AwaitOlder uid newDeviceId checkDeviceIdOwnerRef checkOlderDeviceIdRef, s))"
| "rebind_step s (AwaitOlder uid newDeviceId checkDeviceIdOwnerRef checkOlderDeviceIdRef) =
     (let result = once_value (rtdb s) checkOlderDeviceIdRef in
      case remove_old_ownership (rtdb s) result of
        Inl err \<Rightarrow> (Answered (Inl err), s)
      | Inr db1 \<Rightarrow>
          let db2 = set_value db1 checkOlderDeviceIdRef (Str newDeviceId);
              db3 = set_value db2 checkDeviceIdOwnerRef (Str uid)
          in (Answered (Inr (SuccessMessage ''Successfully updated'')), s\<lparr>rtdb := db3\<rparr>))"
| "rebind_step s (Answered r) = (Answered r, s)"

text \<open>
  Calls in flight under a schedule: each number names the call that takes the next step.
\<close>

fun interleave :: "'d store \<Rightarrow> rebind_call list \<Rightarrow> nat list \<Rightarrow> rebind_call list \<times> 'd store" where
  "interleave s calls [] = (calls, s)"
| "interleave s calls (i # schedule) =
     (if i < length calls then
        let (c, s') = rebind_step s (calls ! i)
        in interleave s' (calls[i := c]) schedule
      else interleave s calls schedule)"

text \<open>A sequence of Rebind calls, each run to completion before the next starts.\<close>

fun rebinds :: "'d store \<Rightarrow> (string \<times> string) list \<Rightarrow> 'd store" where
  "rebinds s [] = s"
| "rebinds s ((uid, newDeviceId) # calls) = rebinds (snd (post_deviceId s uid newDeviceId)) calls"

section \<open>Location relay\<close>

text \<open>The snapshot of a user's LocationRequestFlag.\<close>

definition location_request :: "'d store \<Rightarrow> string \<Rightarrow> snapshot" where
  "location_request s uid =
     (case ref (''users/'' @ uid @ ''/locationRequest'') of
        Inl err \<Rightarrow> Absent
      | Inr p \<Rightarrow> once_value (rtdb s) p)"

text \<open>The report sequence of a device.\<close>

definition device_reports :: "'d store \<Rightarrow> string \<Rightarrow> location list" where
  "device_reports s deviceId =
     (case ref (''devices/'' @ deviceId) of
        Inl err \<Rightarrow> []
      | Inr p \<Rightarrow> reports (rtdb s) p)"

text \<open>
  \<^verbatim>\<open>GET /set-location-request\<close> (RequestLocation). \<open>deviceId\<close> is \<^verbatim>\<open>req.query.deviceId\<close>,
  \<open>None\<close> when the query has none; \<^verbatim>\<open>!deviceId\<close> holds for it and for the empty string.
\<close>

definition get_set_location_request :: "'d store \<Rightarrow> string option \<Rightarrow> 'd outcome" where
  "get_set_location_request s deviceId =
     (case deviceId of
        None \<Rightarrow> (Inl (ExpressError ''You must provide a device id!'' None), s)
      | Some d \<Rightarrow>
          if d = [] then (Inl (ExpressError ''You must provide a device id!'' None), s)
          else
            case ref (''device-user/'' @ d) of
              Inl err \<Rightarrow> (Inl err, s)
            | Inr fetchUserIdRef \<Rightarrow>
                let userIdResult = once_value (rtdb s) fetchUserIdRef in
                if userIdResult = Absent then
                  (Inl (ExpressError ''No user found with this device id!'' (Some 404)), s)
                else
                  case ref (''users/'' @ js_string userIdResult @ ''/locationRequest'') of
                    Inl err \<Rightarrow> (Inl err, s)
                  | Inr setLocationRequestRef \<Rightarrow>
                      (Inr (Send ''Successful''),
                       s\<lparr>rtdb := set_value (rtdb s) setLocationRequestRef (Bool True)\<rparr>))"

text \<open>
  A number of the request body as the handler receives it: a finite one, or the infinity
  \<^verbatim>\<open>JSON.parse\<close> makes of a literal beyond the range of a double.
\<close>

datatype number = Finite real | Infinity | MinusInfinity

text \<open>
  \<^verbatim>\<open>POST /location\<close> (ReportLocation). \<open>la\<close> and \<open>lo\<close> are the fields \<^verbatim>\<open>lat\<close> and \<^verbatim>\<open>lng\<close> of
  the request body, \<open>None\<close> when the body has none, and \<open>now\<close> is the value of
  \<^verbatim>\<open>Timestamp.now()\<close> at the call. \<^verbatim>\<open>push\<close> raises on a value that holds \<^verbatim>\<open>undefined\<close> or
  an infinity.
\<close>

definition post_location ::
  "'d store \<Rightarrow> string \<Rightarrow> number option \<Rightarrow> number option \<Rightarrow> nat \<Rightarrow> 'd outcome"
where
  "post_location s uid la lo now =
     (case ref (''users/'' @ uid @ ''/deviceId'') of
        Inl err \<Rightarrow> (Inl err, s)
      | Inr fetchDeviceIdRef \<Rightarrow>
          let deviceIdResult = once_value (rtdb s) fetchDeviceIdRef in
          if deviceIdResult = Absent then
            (Inl (ExpressError ''You don't have a device id!'' (Some 404)), s)
          else
            case ref (''devices/'' @ js_string deviceIdResult) of
              Inl err \<Rightarrow> (Inl err, s)
            | Inr locationsRef \<Rightarrow>
                (case (la, lo) of
                   (Some (Finite x), Some (Finite y)) \<Rightarrow>
                     let s1 = s\<lparr>rtdb := push (rtdb s) locationsRef
                                 (Report \<lparr>lat = x, lng = y, time = now\<rparr>)\<rparr>
                     in (case ref (''users/'' @ uid @ ''/locationRequest'') of
                           Inl err \<Rightarrow> (Inl err, s1)
                         | Inr removeLocationRequestRef \<Rightarrow>
                             (Inr (Send ''Location sent''),
                              s1\<lparr>rtdb := set_null (rtdb s1) removeLocationRequestRef\<rparr>))
                 | _ \<Rightarrow> (Inl LibraryError, s)))"

section \<open>Template store and enrollment\<close>

text \<open>
  The loop of \<^verbatim>\<open>POST /new-face-base64\<close> over \<^verbatim>\<open>images\<close>: \<open>detectSingleFace\<close> is the
  embedding provider, \<open>None\<close> when it detects no face (the library's \<^verbatim>\<open>undefined\<close>);
  \<^verbatim>\<open>detections.descriptor\<close> then raises. \<open>acc\<close> is \<^verbatim>\<open>descriptions\<close>.
\<close>

fun collect_descriptions :: "('img \<Rightarrow> 'd option) \<Rightarrow> 'img list \<Rightarrow> 'd list \<Rightarrow> error + 'd list" where
  "collect_descriptions detectSingleFace [] acc = Inr acc"
| "collect_descriptions detectSingleFace (img # images) acc =
     (case detectSingleFace img of
        None \<Rightarrow> Inl TypeError
      | Some descriptor \<Rightarrow> collect_descriptions detectSingleFace images (acc @ [descriptor]))"

text \<open>
  \<^verbatim>\<open>POST /new-face-base64\<close> (EnrollFace). \<open>encoded\<close>, \<open>encoded2\<close>, \<open>encoded3\<close> are the three
  images of the request body and \<open>new_id\<close> the identifier the document store gives the
  pushed template.
\<close>

definition post_new_face_base64 ::
  "('img \<Rightarrow> 'd option) \<Rightarrow> 'd store \<Rightarrow> string \<Rightarrow> string \<Rightarrow> 'img \<Rightarrow> 'img \<Rightarrow> 'img \<Rightarrow> nat \<Rightarrow> 'd outcome"
where
  "post_new_face_base64 detectSingleFace s uid lbl encoded encoded2 encoded3 new_id =
     (let images = [encoded, encoded2, encoded3];
          (existingUser, s1) =
            (case users s uid of
               Some u \<Rightarrow> (u, s)
             | None \<Rightarrow>
                 (let u = \<lparr>userId = uid, faces = []\<rparr>
                  in (u, s\<lparr>users := (users s)(uid \<mapsto> u)\<rparr>)))
      in case collect_descriptions detectSingleFace images [] of
           Inl err \<Rightarrow> (Inl err, s1)
         | Inr ds \<Rightarrow>
             let face = \<lparr>face_id = new_id, label = lbl, descriptions = ds\<rparr>;
                 saved = existingUser\<lparr>faces := faces existingUser @ [face]\<rparr>
             in (Inr (SuccessMessage ''Successfully updated''),
                 s1\<lparr>users := (users s1)(uid \<mapsto> saved)\<rparr>))"

text \<open>The user's template collection as the document store holds it; empty without a record.\<close>

definition templates :: "'d store \<Rightarrow> string \<Rightarrow> 'd face list" where
  "templates s uid = (case users s uid of None \<Rightarrow> [] | Some u \<Rightarrow> faces u)"

text \<open>
  \<^verbatim>\<open>POST /delete-face\<close> (DeleteFace): \<^verbatim>\<open>$pull: { faces: { _id: faceId } }\<close> removes every
  element whose identifier is \<open>faceId\<close>.
\<close>

definition post_delete_face :: "'d store \<Rightarrow> string \<Rightarrow> nat \<Rightarrow> 'd outcome" where
  "post_delete_face s uid faceId =
     (case users s uid of
        None \<Rightarrow> (Inl (ExpressError ''No user found.'' (Some 401)), s)
      | Some user \<Rightarrow>
          (Inr (Send ''Successfully deleted''),
           s\<lparr>users := (users s)(uid \<mapsto>
                user\<lparr>faces := filter (\<lambda>f. face_id f \<noteq> faceId) (faces user)\<rparr>)\<rparr>))"

section \<open>Matcher\<close>


section \<open>Paths\<close>

lemma pieces_not_Nil: "pieces cs \<noteq> []"
  by (induction cs) (auto split: list.splits)

lemma pieces_append_slash: "pieces (a @ CHR ''/'' # b) = pieces a @ pieces b"
proof (induction a)
  case Nil
  then show ?case by simp
next
  case (Cons c a)
  then show ?case
    using pieces_not_Nil [of a] by (cases "pieces a") (auto split: list.splits)
qed

lemma ref_error: "ref x = Inl err \<Longrightarrow> err = LibraryError"
  by (auto simp: ref_def split: if_splits)

lemma ref_cases:
  obtains "ref x = Inl LibraryError" | p where "ref x = Inr p"
  by (cases "ref x") (auto dest: ref_error)


lemma ref_users:
  "ref (''users/'' @ x) = Inr p \<Longrightarrow> \<exists>t. p = Key ''users'' # t"
  using pieces_append_slash [of "''users''" x]
  by (auto simp: ref_def split: if_splits)

lemma ref_devices:
  "ref (''devices/'' @ d) = Inr p \<Longrightarrow> \<exists>t. p = Key ''devices'' # t"
  using pieces_append_slash [of "''devices''" d]
  by (auto simp: ref_def split: if_splits)

lemma ref_no_push: "ref x = Inr p \<Longrightarrow> push_ids p = []"
proof -
  have "push_ids (map Key ks) = []" for ks
    by (induction ks) auto
  then show "ref x = Inr p \<Longrightarrow> push_ids p = []"
    by (auto simp: ref_def split: if_splits)
qed

lemma ref_users_other_field:
  "ref (''users/'' @ uid @ ''/deviceId'') = Inr p \<Longrightarrow>
   \<exists>q. ref (''users/'' @ uid @ ''/locationRequest'') = Inr q"
  by (auto simp: ref_def invalid_path_character_def split: if_splits)

section \<open>Reading after writing\<close>

lemma map_of_filter_key:
  "map_of (filter (\<lambda>(k, v). P k) db) q = (if P q then map_of db q else None)"
  by (induction db) auto

lemma list_ex_filter_below:
  "list_ex (\<lambda>(k, v). prefix q k) (filter (\<lambda>(k, v). P k) db) =
   list_ex (\<lambda>(k, v). prefix q k \<and> P k) db"
  by (induction db) auto


lemma map_of_set_null:
  "map_of (set_null db p) q = (if prefix p q then None else map_of db q)"
  using map_of_filter_key [of "\<lambda>k. \<not> prefix p k" db q]
  by (auto simp: set_null_def)


lemma below_set_null:
  "list_ex (\<lambda>(k, w). prefix q k) (set_null db p) =
     list_ex (\<lambda>(k, w). prefix q k \<and> \<not> prefix p k) db"
  using list_ex_filter_below [of q "\<lambda>k. \<not> prefix p k" db]
  by (auto simp: set_null_def)




lemma once_value_set_null_below:
  assumes "prefix p q"
  shows "once_value (set_null db p) q = Absent"
proof -
  have "list_ex (\<lambda>(k, v). prefix q k \<and> \<not> prefix p k) db = False"
    using assms by (induction db) (auto dest: prefix_order.trans)
  then show ?thesis
    using assms by (simp add: once_value_def map_of_set_null below_set_null)
qed

lemma once_value_set_null_other:
  assumes "\<not> prefix p q" and "\<not> prefix q p"
  shows "once_value (set_null db p) q = once_value db q"
proof -
  have keep: "prefix q k \<Longrightarrow> \<not> prefix p k" for k
    using assms by (meson prefix_same_cases)
  have "list_ex (\<lambda>(k, v). prefix q k \<and> \<not> prefix p k) db =
        list_ex (\<lambda>(k, v). prefix q k) db"
    using keep by (induction db) auto
  then show ?thesis
    using assms by (simp add: once_value_def map_of_set_null below_set_null)
qed

lemma other_heads: "a \<noteq> b \<Longrightarrow> \<not> prefix (a # p) (b # q) \<and> \<not> prefix (b # q) (a # p)"
  by simp

section \<open>Lookups\<close>

lemma lookup_None_iff:
  "(lookup s x = None) = (\<forall>p. ref x = Inr p \<longrightarrow> once_value (rtdb s) p = Absent)"
  by (cases "ref x") (auto simp: lookup_def split: snapshot.splits)



lemma lookup_SomeD:
  "lookup s x = Some v \<Longrightarrow>
   \<exists>p. ref x = Inr p \<and> once_value (rtdb s) p \<noteq> Absent \<and> js_string (once_value (rtdb s) p) = v"
  by (cases "ref x") (auto simp: lookup_def split: snapshot.splits)

section \<open>Rebind, case by case\<close>




lemma remove_old_ownership_absent: "remove_old_ownership db Absent = Inr db"
  by (simp add: remove_old_ownership_def)






section \<open>Properties of the binding registry\<close>

lemma rebind_first_scenario:
  "post_deviceId (empty_store :: 'd store) ''user1'' ''AB12CD'' =
     (Inr (SuccessMessage ''Successfully updated''),
      empty_store\<lparr>rtdb :=
        [([Key ''users'', Key ''user1'', Key ''deviceId''], Str ''AB12CD''),
         ([Key ''device-user'', Key ''AB12CD''], Str ''user1'')]\<rparr>)"
  by (simp add: post_deviceId_def ref_def invalid_path_character_def once_value_def
      remove_old_ownership_def set_value_def empty_store_def)






lemma rebind_slash_first:
  "post_deviceId (empty_store :: 'd store) ''user1'' ''ABCD//'' =
     (Inr (SuccessMessage ''Successfully updated''),
      empty_store\<lparr>rtdb :=
        [([Key ''users'', Key ''user1'', Key ''deviceId''], Str ''ABCD//''),
         ([Key ''device-user'', Key ''ABCD''], Str ''user1'')]\<rparr>)"
  by (simp add: post_deviceId_def ref_def invalid_path_character_def once_value_def
      remove_old_ownership_def set_value_def empty_store_def)


lemma rebind_slash_other_user:
  "post_deviceId
     ((empty_store :: 'd store)\<lparr>rtdb :=
        [([Key ''users'', Key ''user1'', Key ''deviceId''], Str ''ABCD//''),
         ([Key ''device-user'', Key ''ABCD''], Str ''user1'')]\<rparr>) ''user2'' ''ABCD/x'' =
     (Inr (SuccessMessage ''Successfully updated''),
      empty_store\<lparr>rtdb :=
        [([Key ''users'', Key ''user1'', Key ''deviceId''], Str ''ABCD//''),
         ([Key ''users'', Key ''user2'', Key ''deviceId''], Str ''ABCD/x''),
         ([Key ''device-user'', Key ''ABCD'', Key ''x''], Str ''user2'')]\<rparr>)"
  by (simp add: post_deviceId_def ref_def invalid_path_character_def once_value_def
      remove_old_ownership_def set_value_def set_null_def empty_store_def)

lemma overlapped_calls:
  "interleave (empty_store :: 'd store)
     [Arrived ''user1'' ''AB12CD'', Arrived ''user2'' ''AB12CD''] [0, 1, 0, 1, 0, 1] =
     ([Answered (Inr (SuccessMessage ''Successfully updated'')),
       Answered (Inr (SuccessMessage ''Successfully updated''))],
      empty_store\<lparr>rtdb :=
        [([Key ''users'', Key ''user1'', Key ''deviceId''], Str ''AB12CD''),
         ([Key ''users'', Key ''user2'', Key ''deviceId''], Str ''AB12CD''),
         ([Key ''device-user'', Key ''AB12CD''], Str ''user2'')]\<rparr>)"
  by (simp add: ref_def invalid_path_character_def once_value_def
      remove_old_ownership_def set_value_def set_null_def empty_store_def)

lemma rebind_step_alone:
  "rebind_step s (Arrived uid d) = (c1, s1) \<Longrightarrow> rebind_step s1 c1 = (c2, s2) \<Longrightarrow>
   rebind_step s2 c2 = (c3, s3) \<Longrightarrow>
   c3 = Answered (fst (post_deviceId s uid d)) \<and> s3 = snd (post_deviceId s uid d)"
  by (auto simp: post_deviceId_def Let_def split: if_splits sum.splits)








text \<open>A call that no other call interrupts is \<open>post_deviceId\<close>.\<close>

lemma interleave_alone:
  "interleave s [Arrived uid d] [0, 0, 0] =
     ([Answered (fst (post_deviceId s uid d))], snd (post_deviceId s uid d))"
proof -
  obtain c1 s1 where 1: "rebind_step s (Arrived uid d) = (c1, s1)" by fastforce
  obtain c2 s2 where 2: "rebind_step s1 c1 = (c2, s2)" by fastforce
  obtain c3 s3 where 3: "rebind_step s2 c2 = (c3, s3)" by fastforce
  show ?thesis
    using rebind_step_alone [OF 1 2 3] by (simp add: 1 2 3 del: rebind_step.simps)
qed

text \<open>
  C1 fails on the code, in two ways. Run one after the other, Rebind("user1", "ABCD//")
  and Rebind("user2", "ABCD/x") both succeed: the second path lies below the first, where
  nothing exists yet, and its write turns the entry of "user1" into an object. "user1" is
  then bound to "ABCD//", which does not resolve back to "user1". And two calls for the
  device "AB12CD" that overlap at the handler's \<^verbatim>\<open>await\<close>s both pass the ownership check
  before either writes, both answer with success, and leave "user1" and "user2" bound to
  the one device, which resolves to "user2".
\<close>

theorem rebind_breaks_bijection:
  "rebinds (empty_store :: nat store) [(''user1'', ''ABCD//''), (''user2'', ''ABCD/x'')] =
     empty_store\<lparr>rtdb :=
        [([Key ''users'', Key ''user1'', Key ''deviceId''], Str ''ABCD//''),
         ([Key ''users'', Key ''user2'', Key ''deviceId''], Str ''ABCD/x''),
         ([Key ''device-user'', Key ''ABCD'', Key ''x''], Str ''user2'')]\<rparr> \<and>
   fst (post_deviceId (empty_store :: nat store) ''user1'' ''ABCD//'') =
     Inr (SuccessMessage ''Successfully updated'') \<and>
   fst (post_deviceId (snd (post_deviceId (empty_store :: nat store) ''user1'' ''ABCD//''))
     ''user2'' ''ABCD/x'') = Inr (SuccessMessage ''Successfully updated'') \<and>
   ResolveDeviceByUser
     (rebinds (empty_store :: nat store) [(''user1'', ''ABCD//''), (''user2'', ''ABCD/x'')])
     ''user1'' = Some ''ABCD//'' \<and>
   ResolveUserByDevice
     (rebinds (empty_store :: nat store) [(''user1'', ''ABCD//''), (''user2'', ''ABCD/x'')])
     ''ABCD//'' = Some ''[object Object]'' \<and>
   interleave (empty_store :: nat store)
     [Arrived ''user1'' ''AB12CD'', Arrived ''user2'' ''AB12CD''] [0, 1, 0, 1, 0, 1] =
     ([Answered (Inr (SuccessMessage ''Successfully updated'')),
       Answered (Inr (SuccessMessage ''Successfully updated''))],
      empty_store\<lparr>rtdb :=
        [([Key ''users'', Key ''user1'', Key ''deviceId''], Str ''AB12CD''),
         ([Key ''users'', Key ''user2'', Key ''deviceId''], Str ''AB12CD''),
         ([Key ''device-user'', Key ''AB12CD''], Str ''user2'')]\<rparr>) \<and>
   ResolveDeviceByUser
     (snd (interleave (empty_store :: nat store)
        [Arrived ''user1'' ''AB12CD'', Arrived ''user2'' ''AB12CD''] [0, 1, 0, 1, 0, 1]))
     ''user1'' = Some ''AB12CD'' \<and>
   ResolveDeviceByUser
     (snd (interleave (empty_store :: nat store)
        [Arrived ''user1'' ''AB12CD'', Arrived ''user2'' ''AB12CD''] [0, 1, 0, 1, 0, 1]))
     ''user2'' = Some ''AB12CD'' \<and>
   ResolveUserByDevice
     (snd (interleave (empty_store :: nat store)
        [Arrived ''user1'' ''AB12CD'', Arrived ''user2'' ''AB12CD''] [0, 1, 0, 1, 0, 1]))
     ''AB12CD'' = Some ''user2''"
proof -
  have serial: "rebinds (empty_store :: nat store)
      [(''user1'', ''ABCD//''), (''user2'', ''ABCD/x'')] =
     empty_store\<lparr>rtdb :=
        [([Key ''users'', Key ''user1'', Key ''deviceId''], Str ''ABCD//''),
         ([Key ''users'', Key ''user2'', Key ''deviceId''], Str ''ABCD/x''),
         ([Key ''device-user'', Key ''ABCD'', Key ''x''], Str ''user2'')]\<rparr>"
    by (simp add: rebind_slash_first rebind_slash_other_user)
  have second: "fst (post_deviceId (snd (post_deviceId (empty_store :: nat store) ''user1''
      ''ABCD//'')) ''user2'' ''ABCD/x'') = Inr (SuccessMessage ''Successfully updated'')"
    by (simp add: rebind_slash_first rebind_slash_other_user)
  have look1: "ResolveDeviceByUser
     (rebinds (empty_store :: nat store) [(''user1'', ''ABCD//''), (''user2'', ''ABCD/x'')])
     ''user1'' = Some ''ABCD//''"
    unfolding serial
    by (simp add: ResolveDeviceByUser_def lookup_def ref_def invalid_path_character_def
        once_value_def)
  have look2: "ResolveUserByDevice
     (rebinds (empty_store :: nat store) [(''user1'', ''ABCD//''), (''user2'', ''ABCD/x'')])
     ''ABCD//'' = Some ''[object Object]''"
    unfolding serial
    by (simp add: ResolveUserByDevice_def lookup_def ref_def invalid_path_character_def
        once_value_def)
  have look3: "ResolveDeviceByUser
     (snd (interleave (empty_store :: nat store)
        [Arrived ''user1'' ''AB12CD'', Arrived ''user2'' ''AB12CD''] [0, 1, 0, 1, 0, 1]))
     ''user1'' = Some ''AB12CD''"
    unfolding overlapped_calls
    by (simp add: ResolveDeviceByUser_def lookup_def ref_def invalid_path_character_def
        once_value_def)
  have look4: "ResolveDeviceByUser
     (snd (interleave (empty_store :: nat store)
        [Arrived ''user1'' ''AB12CD'', Arrived ''user2'' ''AB12CD''] [0, 1, 0, 1, 0, 1]))
     ''user2'' = Some ''AB12CD''"
    unfolding overlapped_calls
    by (simp add: ResolveDeviceByUser_def lookup_def ref_def invalid_path_character_def
        once_value_def)
  have look5: "ResolveUserByDevice
     (snd (interleave (empty_store :: nat store)
        [Arrived ''user1'' ''AB12CD'', Arrived ''user2'' ''AB12CD''] [0, 1, 0, 1, 0, 1]))
     ''AB12CD'' = Some ''user2''"
    unfolding overlapped_calls
    by (simp add: ResolveUserByDevice_def lookup_def ref_def invalid_path_character_def
        once_value_def)
  have first: "fst (post_deviceId (empty_store :: nat store) ''user1'' ''ABCD//'') =
     Inr (SuccessMessage ''Successfully updated'')"
    by (simp add: rebind_slash_first)
  note overlapped = overlapped_calls [where ?'d = nat]
  show ?thesis
    by (intro conjI serial first second look1 look2 overlapped look3 look4 look5)
qed

section \<open>Properties of the location relay\<close>






lemma reports_append: "reports (xs @ ys) p = reports xs p @ reports ys p"
  by (induction xs) (auto split: node.splits)

lemma reports_filter:
  assumes "\<And>q v. (q, v) \<in> set db \<Longrightarrow> pushed_child p q \<Longrightarrow> P (q, v)"
  shows "reports (filter P db) p = reports db p"
  using assms
proof (induction db)
  case Nil
  then show ?case by simp
next
  case (Cons entry db)
  obtain q v where entry: "entry = (q, v)" by (cases entry)
  have rest: "reports (filter P db) p = reports db p"
    using Cons by simp
  show ?case
  proof (cases "P (q, v)")
    case True
    then show ?thesis using rest entry by (simp split: node.splits)
  next
    case False
    then have "\<not> pushed_child p q"
      using Cons.prems [of q v] entry by auto
    then show ?thesis using False rest entry by (simp split: node.splits)
  qed
qed

lemma pushed_child_iff: "pushed_child p q = (\<exists>n. q = p @ [PushId n])"
proof
  assume "pushed_child p q"
  then show "\<exists>n. q = p @ [PushId n]"
    by (cases q rule: rev_cases) (auto split: key.splits)
next
  assume "\<exists>n. q = p @ [PushId n]"
  then show "pushed_child p q" by auto
qed

lemma push_ids_append: "push_ids (a @ b) = push_ids a @ push_ids b"
  by (induction a rule: push_ids.induct) auto

lemma fold_max_ge: "(a :: nat) \<le> fold max xs a"
proof (induction xs arbitrary: a)
  case Nil
  then show ?case by simp
next
  case (Cons x xs)
  have "a \<le> max x a" by simp
  also have "\<dots> \<le> fold max xs (max x a)" by (rule Cons.IH)
  finally show ?case by simp
qed

lemma fold_max_member: "x \<in> set xs \<Longrightarrow> (x :: nat) \<le> fold max xs a"
proof (induction xs arbitrary: a)
  case Nil
  then show ?case by simp
next
  case (Cons y xs)
  show ?case
  proof (cases "x = y")
    case True
    have "x \<le> max y a" using True by simp
    also have "\<dots> \<le> fold max xs (max y a)" by (rule fold_max_ge)
    finally show ?thesis by simp
  next
    case False
    then show ?thesis using Cons by simp
  qed
qed

lemma new_push_id_fresh:
  assumes "(q, v) \<in> set db" and "n \<in> set (push_ids q)"
  shows "n < new_push_id db"
proof -
  have "n \<in> set (concat (map (\<lambda>(q, v). push_ids q) db))"
    using assms by force
  then have "n \<le> fold max (concat (map (\<lambda>(q, v). push_ids q) db)) 0"
    by (rule fold_max_member)
  then show ?thesis
    by (simp add: new_push_id_def)
qed

lemma reports_push: "reports (push db p (Report r)) p = reports db p @ [r]"
proof -
  let ?k = "p @ [PushId (new_push_id db)]"
  have keep: "\<not> prefix ?k q \<and> \<not> prefix q ?k"
    if "(q, v) \<in> set db" and "pushed_child p q" for q v
  proof -
    from that(2) obtain n where q: "q = p @ [PushId n]"
      using pushed_child_iff by blast
    then have "n < new_push_id db"
      using new_push_id_fresh [OF that(1), of n] by (simp add: push_ids_append)
    then show ?thesis using q by simp
  qed
  have "reports (filter (\<lambda>(q, w). \<not> prefix ?k q \<and> \<not> prefix q ?k) db) p = reports db p"
    by (rule reports_filter) (use keep in auto)
  then show ?thesis
    by (simp add: push_def set_value_def reports_append)
qed

lemma reports_set_null_elsewhere:
  assumes "a \<noteq> b"
  shows "reports (set_null db (a # q)) (b # p) = reports db (b # p)"
proof -
  have "\<not> prefix (a # q) k" if "pushed_child (b # p) k" for k
  proof -
    from that obtain n where "k = (b # p) @ [PushId n]"
      using pushed_child_iff by blast
    then show ?thesis using assms by simp
  qed
  then show ?thesis
    unfolding set_null_def by (intro reports_filter) auto
qed

lemma post_location_refused_user:
  "ref (''users/'' @ uid @ ''/deviceId'') = Inl err \<Longrightarrow>
   post_location s uid la lo now = (Inl LibraryError, s)"
  by (auto simp: post_location_def dest: ref_error)

lemma post_location_unbound:
  "ref (''users/'' @ uid @ ''/deviceId'') = Inr p \<Longrightarrow> ResolveDeviceByUser s uid = None \<Longrightarrow>
   post_location s uid la lo now =
     (Inl (ExpressError ''You don't have a device id!'' (Some 404)), s)"
  by (simp add: post_location_def ResolveDeviceByUser_def lookup_None_iff)

lemma post_location_bound:
  assumes "ResolveDeviceByUser s uid = Some d"
  shows "post_location s uid la lo now =
     (case ref (''devices/'' @ d) of
        Inl err \<Rightarrow> (Inl LibraryError, s)
      | Inr locationsRef \<Rightarrow>
          (case (la, lo) of
             (Some (Finite x), Some (Finite y)) \<Rightarrow>
               (case ref (''users/'' @ uid @ ''/locationRequest'') of
                  Inl err \<Rightarrow>
                    (Inl LibraryError,
                     s\<lparr>rtdb := push (rtdb s) locationsRef
                          (Report \<lparr>lat = x, lng = y, time = now\<rparr>)\<rparr>)
                | Inr removeLocationRequestRef \<Rightarrow>
                    (Inr (Send ''Location sent''),
                     s\<lparr>rtdb := set_null
                          (push (rtdb s) locationsRef (Report \<lparr>lat = x, lng = y, time = now\<rparr>))
                          removeLocationRequestRef\<rparr>))
           | _ \<Rightarrow> (Inl LibraryError, s)))"
proof -
  from lookup_SomeD [OF assms [unfolded ResolveDeviceByUser_def]] obtain p where
    "ref (''users/'' @ uid @ ''/deviceId'') = Inr p" "once_value (rtdb s) p \<noteq> Absent"
    "js_string (once_value (rtdb s) p) = d"
    by blast
  then show ?thesis
    by (auto simp: post_location_def Let_def
        split: sum.splits option.splits number.splits dest: ref_error)
qed

lemma post_location_appends:
  assumes bound: "ResolveDeviceByUser s uid = Some d"
    and dp: "ref (''devices/'' @ d) = Inr dp"
  shows "fst (post_location s uid (Some (Finite x)) (Some (Finite y)) now) =
           Inr (Send ''Location sent'') \<and>
         device_reports (snd (post_location s uid (Some (Finite x)) (Some (Finite y)) now)) d =
           device_reports s d @ [\<lparr>lat = x, lng = y, time = now\<rparr>] \<and>
         location_request (snd (post_location s uid (Some (Finite x)) (Some (Finite y)) now))
           uid = Absent"
proof -
  from lookup_SomeD [OF bound [unfolded ResolveDeviceByUser_def]] obtain p where
    p: "ref (''users/'' @ uid @ ''/deviceId'') = Inr p"
    by blast
  obtain q where q: "ref (''users/'' @ uid @ ''/locationRequest'') = Inr q"
    using ref_users_other_field [OF p] by blast
  obtain t where t: "dp = Key ''devices'' # t"
    using ref_devices [OF dp] by blast
  obtain t' where t': "q = Key ''users'' # t'"
    using ref_users [of "uid @ ''/locationRequest''" q] q by auto
  have eq: "post_location s uid (Some (Finite x)) (Some (Finite y)) now =
      (Inr (Send ''Location sent''),
       s\<lparr>rtdb := set_null (push (rtdb s) dp (Report \<lparr>lat = x, lng = y, time = now\<rparr>)) q\<rparr>)"
    using dp q by (simp add: post_location_bound [OF bound])
  have "reports (set_null (push (rtdb s) dp (Report \<lparr>lat = x, lng = y, time = now\<rparr>)) q) dp =
      reports (rtdb s) dp @ [\<lparr>lat = x, lng = y, time = now\<rparr>]"
    unfolding t t' by (simp add: reports_set_null_elsewhere reports_push)
  then show ?thesis
    using dp q by (simp add: eq device_reports_def location_request_def
        once_value_set_null_below)
qed

lemma post_location_refused_value:
  assumes "ResolveDeviceByUser s uid = Some d"
    and "(\<forall>x. la \<noteq> Some (Finite x)) \<or> (\<forall>y. lo \<noteq> Some (Finite y))"
  shows "post_location s uid la lo now = (Inl LibraryError, s)"
  using assms(2)
  by (auto simp: post_location_bound [OF assms(1)]
      split: sum.splits option.splits number.splits)

lemma post_location_refused_device:
  assumes "ResolveDeviceByUser s uid = Some d" and "ref (''devices/'' @ d) = Inl LibraryError"
  shows "post_location s uid la lo now = (Inl LibraryError, s)"
  using assms(2) by (simp add: post_location_bound [OF assms(1)])

lemma requested_AB12CD:
  "snd (get_set_location_request
     (snd (post_deviceId (empty_store :: 'd store) ''user1'' ''AB12CD'')) (Some ''AB12CD'')) =
   empty_store\<lparr>rtdb :=
     [([Key ''users'', Key ''user1'', Key ''deviceId''], Str ''AB12CD''),
      ([Key ''device-user'', Key ''AB12CD''], Str ''user1''),
      ([Key ''users'', Key ''user1'', Key ''locationRequest''], Bool True)]\<rparr>"
  by (simp add: rebind_first_scenario get_set_location_request_def ref_def
      invalid_path_character_def once_value_def set_value_def)

lemma device_of_user1:
  "ResolveDeviceByUser
     ((empty_store :: 'd store)\<lparr>rtdb :=
       ([Key ''users'', Key ''user1'', Key ''deviceId''], Str ''AB12CD'') # db\<rparr>)
     ''user1'' = Some ''AB12CD''"
  by (simp add: ResolveDeviceByUser_def lookup_def ref_def invalid_path_character_def
      once_value_def)

lemma first_report:
  "snd (post_location
     ((empty_store :: 'd store)\<lparr>rtdb :=
       [([Key ''users'', Key ''user1'', Key ''deviceId''], Str ''AB12CD''),
        ([Key ''device-user'', Key ''AB12CD''], Str ''user1''),
        ([Key ''users'', Key ''user1'', Key ''locationRequest''], Bool True)]\<rparr>)
     ''user1'' (Some (Finite 2)) (Some (Finite 3)) 4) =
   empty_store\<lparr>rtdb :=
     [([Key ''users'', Key ''user1'', Key ''deviceId''], Str ''AB12CD''),
      ([Key ''device-user'', Key ''AB12CD''], Str ''user1''),
      ([Key ''devices'', Key ''AB12CD'', PushId (Suc 0)],
       Report \<lparr>lat = 2, lng = 3, time = 4\<rparr>)]\<rparr>"
  by (simp add: post_location_def ref_def invalid_path_character_def once_value_def
      set_value_def set_null_def push_def new_push_id_def)

text \<open>
  C6, as the code has it. ReportLocation fails with NotFound (status 404), changing
  nothing, when the user has no bound device. Otherwise, when \<open>lat\<close> and \<open>lng\<close> are finite
  numbers, it succeeds, appends the report with these coordinates and the current time at
  the end of the bound device's sequence, whose earlier reports stay as they were, and
  clears the user's LocationRequestFlag. When \<open>lat\<close> or \<open>lng\<close> is missing or an infinity,
  or when the database refuses a path, the call fails with an exception of the database
  (status 500) and changes nothing: no report is appended and the flag stays.
\<close>

theorem report_location_appends:
  "(ref (''users/'' @ uid @ ''/deviceId'') = Inl LibraryError \<longrightarrow>
      post_location s uid la lo now = (Inl LibraryError, s)) \<and>
   (\<forall>p. ref (''users/'' @ uid @ ''/deviceId'') = Inr p \<longrightarrow> ResolveDeviceByUser s uid = None \<longrightarrow>
      post_location s uid la lo now =
        (Inl (ExpressError ''You don't have a device id!'' (Some 404)), s)) \<and>
   response_status (ExpressError ''You don't have a device id!'' (Some 404)) = 404 \<and>
   (\<forall>d dp x y. ResolveDeviceByUser s uid = Some d \<longrightarrow> ref (''devices/'' @ d) = Inr dp \<longrightarrow>
      la = Some (Finite x) \<longrightarrow> lo = Some (Finite y) \<longrightarrow>
      fst (post_location s uid la lo now) = Inr (Send ''Location sent'') \<and>
      device_reports (snd (post_location s uid la lo now)) d =
        device_reports s d @ [\<lparr>lat = x, lng = y, time = now\<rparr>] \<and>
      location_request (snd (post_location s uid la lo now)) uid = Absent) \<and>
   (\<forall>d. ResolveDeviceByUser s uid = Some d \<longrightarrow>
      (\<forall>x. la \<noteq> Some (Finite x)) \<or> (\<forall>y. lo \<noteq> Some (Finite y)) \<longrightarrow>
      post_location s uid la lo now = (Inl LibraryError, s)) \<and>
   (\<forall>d. ResolveDeviceByUser s uid = Some d \<longrightarrow> ref (''devices/'' @ d) = Inl LibraryError \<longrightarrow>
      post_location s uid la lo now = (Inl LibraryError, s)) \<and>
   response_status LibraryError = 500"
proof -
  have refused_user: "ref (''users/'' @ uid @ ''/deviceId'') = Inl LibraryError \<longrightarrow>
      post_location s uid la lo now = (Inl LibraryError, s)"
    using post_location_refused_user [of uid LibraryError s la lo now] by blast
  have unbound: "\<forall>p. ref (''users/'' @ uid @ ''/deviceId'') = Inr p \<longrightarrow>
      ResolveDeviceByUser s uid = None \<longrightarrow>
      post_location s uid la lo now =
        (Inl (ExpressError ''You don't have a device id!'' (Some 404)), s)"
    using post_location_unbound [of uid _ s la lo now] by blast
  have appended: "\<forall>d dp x y. ResolveDeviceByUser s uid = Some d \<longrightarrow>
      ref (''devices/'' @ d) = Inr dp \<longrightarrow>
      la = Some (Finite x) \<longrightarrow> lo = Some (Finite y) \<longrightarrow>
      fst (post_location s uid la lo now) = Inr (Send ''Location sent'') \<and>
      device_reports (snd (post_location s uid la lo now)) d =
        device_reports s d @ [\<lparr>lat = x, lng = y, time = now\<rparr>] \<and>
      location_request (snd (post_location s uid la lo now)) uid = Absent"
    using post_location_appends [of s uid _ _ _ _ now] by blast
  have refused_value: "\<forall>d. ResolveDeviceByUser s uid = Some d \<longrightarrow>
      (\<forall>x. la \<noteq> Some (Finite x)) \<or> (\<forall>y. lo \<noteq> Some (Finite y)) \<longrightarrow>
      post_location s uid la lo now = (Inl LibraryError, s)"
    using post_location_refused_value [of s uid _ la lo now] by blast
  have refused_device: "\<forall>d. ResolveDeviceByUser s uid = Some d \<longrightarrow>
      ref (''devices/'' @ d) = Inl LibraryError \<longrightarrow>
      post_location s uid la lo now = (Inl LibraryError, s)"
    using post_location_refused_device [of s uid _ la lo now] by blast
  have st1: "response_status (ExpressError ''You don't have a device id!'' (Some 404)) = 404"
    and st2: "response_status LibraryError = 500"
    by (simp_all add: response_status_def)
  show ?thesis
    by (intro conjI refused_user unbound st1 appended refused_value refused_device st2)
qed

theorem report_location_appends_witness:
  "post_location (empty_store :: nat store) ''user1'' (Some (Finite 2)) (Some (Finite 3)) 4 =
     (Inl (ExpressError ''You don't have a device id!'' (Some 404)), empty_store) \<and>
   device_reports
     (snd (post_location
        (snd (post_location
           (snd (get_set_location_request
              (snd (post_deviceId (empty_store :: nat store) ''user1'' ''AB12CD''))
              (Some ''AB12CD'')))
           ''user1'' (Some (Finite 2)) (Some (Finite 3)) 4))
        ''user1'' (Some (Finite 5)) (Some (Finite 6)) 7)) ''AB12CD'' =
     [\<lparr>lat = 2, lng = 3, time = 4\<rparr>, \<lparr>lat = 5, lng = 6, time = 7\<rparr>] \<and>
   location_request
     (snd (post_location
        (snd (get_set_location_request
           (snd (post_deviceId (empty_store :: nat store) ''user1'' ''AB12CD''))
           (Some ''AB12CD'')))
        ''user1'' (Some (Finite 2)) (Some (Finite 3)) 4)) ''user1'' = Absent"
proof -
  let ?s2 = "snd (get_set_location_request
              (snd (post_deviceId (empty_store :: nat store) ''user1'' ''AB12CD''))
              (Some ''AB12CD''))"
  let ?s3 = "snd (post_location ?s2 ''user1'' (Some (Finite 2)) (Some (Finite 3)) 4)"
  have p: "ref (''users/'' @ ''user1'' @ ''/deviceId'') =
      Inr [Key ''users'', Key ''user1'', Key ''deviceId'']"
    by (simp add: ref_def invalid_path_character_def)
  have dp: "ref (''devices/'' @ ''AB12CD'') = Inr [Key ''devices'', Key ''AB12CD'']"
    by (simp add: ref_def invalid_path_character_def)
  have none: "ResolveDeviceByUser (empty_store :: nat store) ''user1'' = None"
    by (simp add: ResolveDeviceByUser_def lookup_def ref_def invalid_path_character_def
        once_value_def empty_store_def)
  have bound2: "ResolveDeviceByUser ?s2 ''user1'' = Some ''AB12CD''"
    unfolding requested_AB12CD by (rule device_of_user1)
  have bound3: "ResolveDeviceByUser ?s3 ''user1'' = Some ''AB12CD''"
    unfolding requested_AB12CD first_report by (rule device_of_user1)
  have before: "device_reports ?s2 ''AB12CD'' = []"
    unfolding requested_AB12CD
    by (simp add: device_reports_def ref_def invalid_path_character_def)
  note at_empty = report_location_appends [of "''user1''" "empty_store :: nat store"
      "Some (Finite 2)" "Some (Finite 3)" 4]
  note at_s2 = report_location_appends [of "''user1''" ?s2 "Some (Finite 2)" "Some (Finite 3)" 4]
  note at_s3 = report_location_appends [of "''user1''" ?s3 "Some (Finite 5)" "Some (Finite 6)" 7]
  have a: "post_location (empty_store :: nat store) ''user1'' (Some (Finite 2))
      (Some (Finite 3)) 4 =
     (Inl (ExpressError ''You don't have a device id!'' (Some 404)), empty_store)"
    by (rule at_empty [THEN conjunct2, THEN conjunct1, rule_format, OF p none])
  note first = at_s2 [THEN conjunct2, THEN conjunct2, THEN conjunct2, THEN conjunct1,
      rule_format, OF bound2 dp refl refl]
  note second = at_s3 [THEN conjunct2, THEN conjunct2, THEN conjunct2, THEN conjunct1,
      rule_format, OF bound3 dp refl refl]
  have b: "device_reports
      (snd (post_location ?s3 ''user1'' (Some (Finite 5)) (Some (Finite 6)) 7)) ''AB12CD'' =
     [\<lparr>lat = 2, lng = 3, time = 4\<rparr>, \<lparr>lat = 5, lng = 6, time = 7\<rparr>]"
    using first [THEN conjunct2, THEN conjunct1] second [THEN conjunct2, THEN conjunct1] before
    by simp
  have c: "location_request ?s3 ''user1'' = Absent"
    by (rule first [THEN conjunct2, THEN conjunct2])
  show ?thesis
    by (intro conjI a b c)
qed

text \<open>
  C6 as the claim words it fails: with a bound device and a \<open>lat\<close> beyond the range of a
  double, which reaches the handler as an infinity, the call appends nothing. It fails
  with status 500, and the flag that was set stays set.
\<close>

theorem report_location_overflow:
  "ResolveDeviceByUser
     (snd (get_set_location_request
        (snd (post_deviceId (empty_store :: nat store) ''user1'' ''AB12CD''))
        (Some ''AB12CD''))) ''user1'' = Some ''AB12CD'' \<and>
   post_location
     (snd (get_set_location_request
        (snd (post_deviceId (empty_store :: nat store) ''user1'' ''AB12CD''))
        (Some ''AB12CD''))) ''user1'' (Some Infinity) (Some (Finite 3)) 4 =
     (Inl LibraryError,
      snd (get_set_location_request
        (snd (post_deviceId (empty_store :: nat store) ''user1'' ''AB12CD''))
        (Some ''AB12CD''))) \<and>
   response_status LibraryError = 500 \<and>
   location_request
     (snd (get_set_location_request
        (snd (post_deviceId (empty_store :: nat store) ''user1'' ''AB12CD''))
        (Some ''AB12CD''))) ''user1'' = Leaf (Bool True)"
  unfolding requested_AB12CD
  by (simp add: ResolveDeviceByUser_def lookup_def location_request_def post_location_def
      ref_def invalid_path_character_def once_value_def response_status_def)

section \<open>Properties of enrollment and deletion\<close>

text \<open>
  The loop either raises at the first image without a detection, or returns the
  embeddings of all images behind the accumulator, in the order of the images.
\<close>

lemma collect_descriptions_all:
  "list_all (\<lambda>img. detectSingleFace img \<noteq> None) images \<Longrightarrow>
   collect_descriptions detectSingleFace images acc =
     Inr (acc @ map (\<lambda>img. the (detectSingleFace img)) images)"
  by (induction images arbitrary: acc) auto

lemma collect_descriptions_raise:
  "\<not> list_all (\<lambda>img. detectSingleFace img \<noteq> None) images \<Longrightarrow>
   collect_descriptions detectSingleFace images acc = Inl TypeError"
  by (induction images arbitrary: acc) (auto split: option.splits)

lemma enroll_all_detected:
  assumes "detectSingleFace encoded = Some d1" "detectSingleFace encoded2 = Some d2"
    "detectSingleFace encoded3 = Some d3"
  shows "post_new_face_base64 detectSingleFace s uid lbl encoded encoded2 encoded3 new_id =
     (Inr (SuccessMessage ''Successfully updated''),
      s\<lparr>users := (users s)(uid \<mapsto>
          (case users s uid of None \<Rightarrow> \<lparr>userId = uid, faces = []\<rparr> | Some u \<Rightarrow> u)
          \<lparr>faces := templates s uid @
             [\<lparr>face_id = new_id, label = lbl, descriptions = [d1, d2, d3]\<rparr>]\<rparr>)\<rparr>)"
  using assms
  by (cases "users s uid") (simp_all add: post_new_face_base64_def templates_def Let_def)

lemma enroll_not_detected:
  assumes "detectSingleFace encoded = None \<or> detectSingleFace encoded2 = None \<or>
    detectSingleFace encoded3 = None"
  shows "post_new_face_base64 detectSingleFace s uid lbl encoded encoded2 encoded3 new_id =
     (Inl TypeError,
      case users s uid of
        None \<Rightarrow> s\<lparr>users := (users s)(uid \<mapsto> \<lparr>userId = uid, faces = []\<rparr>)\<rparr>
      | Some u \<Rightarrow> s)"
proof -
  have "\<not> list_all (\<lambda>img. detectSingleFace img \<noteq> None) [encoded, encoded2, encoded3]"
    using assms by auto
  then have "collect_descriptions detectSingleFace [encoded, encoded2, encoded3] [] =
      Inl TypeError"
    by (rule collect_descriptions_raise)
  then show ?thesis
    by (cases "users s uid") (simp_all add: post_new_face_base64_def Let_def)
qed

text \<open>
  C7, as the code has it. EnrollFace processes the sample images in input order and
  skips none. The call succeeds exactly when every image yields a detection, and the
  template it appends then holds the embeddings of all three samples in input order. When
  an image yields zero detections, reading the descriptor of the missing detection raises
  a TypeError (status 500), and the user's collection holds the templates it held before:
  no template is appended.
\<close>

theorem enroll_skips_no_sample:
  "((\<exists>r. fst (post_new_face_base64 detectSingleFace s uid lbl encoded encoded2 encoded3 new_id)
        = Inr r) =
      (detectSingleFace encoded \<noteq> None \<and> detectSingleFace encoded2 \<noteq> None \<and>
       detectSingleFace encoded3 \<noteq> None)) \<and>
   (\<forall>d1 d2 d3. detectSingleFace encoded = Some d1 \<longrightarrow> detectSingleFace encoded2 = Some d2 \<longrightarrow>
      detectSingleFace encoded3 = Some d3 \<longrightarrow>
      templates (snd (post_new_face_base64 detectSingleFace s uid lbl encoded encoded2 encoded3
          new_id)) uid =
        templates s uid @ [\<lparr>face_id = new_id, label = lbl, descriptions = [d1, d2, d3]\<rparr>]) \<and>
   (detectSingleFace encoded = None \<or> detectSingleFace encoded2 = None \<or>
      detectSingleFace encoded3 = None \<longrightarrow>
      fst (post_new_face_base64 detectSingleFace s uid lbl encoded encoded2 encoded3 new_id) =
        Inl TypeError \<and>
      response_status TypeError = 500 \<and>
      templates (snd (post_new_face_base64 detectSingleFace s uid lbl encoded encoded2 encoded3
          new_id)) uid = templates s uid)"
proof (cases "detectSingleFace encoded = None \<or> detectSingleFace encoded2 = None \<or>
    detectSingleFace encoded3 = None")
  case True
  note raised = enroll_not_detected [of detectSingleFace encoded encoded2 encoded3, OF True]
  have "templates (snd (post_new_face_base64 detectSingleFace s uid lbl encoded encoded2 encoded3
          new_id)) uid = templates s uid"
    by (cases "users s uid") (simp_all add: raised templates_def)
  then show ?thesis
    using True by (auto simp: raised response_status_def)
next
  case False
  then obtain d1 d2 d3 where d: "detectSingleFace encoded = Some d1"
    "detectSingleFace encoded2 = Some d2" "detectSingleFace encoded3 = Some d3"
    by auto
  note appended = enroll_all_detected [of detectSingleFace encoded d1 encoded2 d2 encoded3 d3, OF d]
  show ?thesis
    using d by (simp add: appended templates_def)
qed

theorem enroll_skips_no_sample_witness:
  "templates
     (snd (post_new_face_base64 (\<lambda>img. if img = (2 :: nat) then None else Some (10 * img))
        (empty_store :: nat store) ''user1'' ''Alice'' 1 3 4 0)) ''user1'' =
     [\<lparr>face_id = 0, label = ''Alice'', descriptions = [10, 30, 40]\<rparr>] \<and>
   fst (post_new_face_base64 (\<lambda>img. if img = (2 :: nat) then None else Some (10 * img))
        (empty_store :: nat store) ''user1'' ''Alice'' 1 2 3 0) = Inl TypeError"
proof -
  let ?det = "\<lambda>img. if img = (2 :: nat) then None else Some (10 * img)"
  have e: "templates (empty_store :: nat store) ''user1'' = []"
    by (simp add: templates_def empty_store_def)
  have d: "?det 1 = Some 10" "?det 3 = Some 30" "?det 4 = Some 40" "?det 2 = None"
    by simp_all
  have a: "templates (snd (post_new_face_base64 ?det (empty_store :: nat store) ''user1''
      ''Alice'' 1 3 4 0)) ''user1'' =
      templates (empty_store :: nat store) ''user1'' @
        [\<lparr>face_id = 0, label = ''Alice'', descriptions = [10, 30, 40]\<rparr>]"
    using enroll_skips_no_sample [of ?det "empty_store :: nat store" "''user1''" "''Alice''"
        1 3 4 0] d
    by blast
  have b: "fst (post_new_face_base64 ?det (empty_store :: nat store) ''user1'' ''Alice''
      1 2 3 0) = Inl TypeError"
    using enroll_skips_no_sample [of ?det "empty_store :: nat store" "''user1''" "''Alice''"
        1 2 3 0] d
    by blast
  show ?thesis
    using a b by (simp add: e)
qed

text \<open>
  C7 as the claim words it fails: with a detection in the first and third image and none
  in the second, the call does not append a template of the two successful samples. It
  raises, and the collection of the user record it has just created stays empty.
\<close>

theorem enroll_zero_detections_raises:
  "post_new_face_base64 (\<lambda>img. if img = (2 :: nat) then None else Some (10 * img))
     (empty_store :: nat store) ''user1'' ''Alice'' 1 2 3 0 =
     (Inl TypeError,
      empty_store\<lparr>users := [''user1'' \<mapsto> \<lparr>userId = ''user1'', faces = []\<rparr>]\<rparr>) \<and>
   templates
     (snd (post_new_face_base64 (\<lambda>img. if img = (2 :: nat) then None else Some (10 * img))
        (empty_store :: nat store) ''user1'' ''Alice'' 1 2 3 0)) ''user1'' = []"
  by (simp add: post_new_face_base64_def templates_def empty_store_def Let_def)

text \<open>
  C9. EnrollFace takes exactly three sample images. When every image yields a
  detection, the call succeeds and appends one template to the user's collection, with the
  given label and the three embeddings; a user without a record gets one first, whose
  collection then holds this template alone; the labels of the templates already there
  play no part, so a template of the same label is appended all the same.
\<close>

theorem enroll_appends_one_template:
  assumes "detectSingleFace encoded = Some d1" and "detectSingleFace encoded2 = Some d2"
    and "detectSingleFace encoded3 = Some d3"
  shows "(users s uid = None \<longrightarrow>
            post_new_face_base64 detectSingleFace s uid lbl encoded encoded2 encoded3 new_id =
              (Inr (SuccessMessage ''Successfully updated''),
               s\<lparr>users := (users s)(uid \<mapsto>
                   \<lparr>userId = uid,
                    faces = [\<lparr>face_id = new_id, label = lbl,
                              descriptions = [d1, d2, d3]\<rparr>]\<rparr>)\<rparr>)) \<and>
         (\<forall>u. users s uid = Some u \<longrightarrow>
            post_new_face_base64 detectSingleFace s uid lbl encoded encoded2 encoded3 new_id =
              (Inr (SuccessMessage ''Successfully updated''),
               s\<lparr>users := (users s)(uid \<mapsto>
                   u\<lparr>faces := faces u @ [\<lparr>face_id = new_id, label = lbl,
                                            descriptions = [d1, d2, d3]\<rparr>]\<rparr>)\<rparr>)) \<and>
         length (templates (snd (post_new_face_base64 detectSingleFace s uid lbl encoded encoded2
             encoded3 new_id)) uid) = Suc (length (templates s uid)) \<and>
         length (descriptions (last (templates (snd (post_new_face_base64 detectSingleFace s uid
             lbl encoded encoded2 encoded3 new_id)) uid))) = 3"
  using assms
  by (cases "users s uid") (simp_all add: post_new_face_base64_def templates_def Let_def)

theorem enroll_appends_one_template_witness:
  "templates
     (snd (post_new_face_base64 (\<lambda>img :: nat. Some (10 * img))
        (snd (post_new_face_base64 (\<lambda>img :: nat. Some (10 * img)) (empty_store :: nat store)
           ''user1'' ''Alice'' 2 3 4 7))
        ''user1'' ''Alice'' 5 6 8 9)) ''user1'' =
     [\<lparr>face_id = 7, label = ''Alice'', descriptions = [20, 30, 40]\<rparr>,
      \<lparr>face_id = 9, label = ''Alice'', descriptions = [50, 60, 80]\<rparr>]"
proof -
  let ?det = "\<lambda>img :: nat. Some (10 * img)"
  let ?s1 = "snd (post_new_face_base64 ?det (empty_store :: nat store)
           ''user1'' ''Alice'' 2 3 4 7)"
  have none: "users (empty_store :: nat store) ''user1'' = None"
    by (simp add: empty_store_def)
  have d1: "?det 2 = Some 20" "?det 3 = Some 30" "?det 4 = Some 40"
    and d2: "?det 5 = Some 50" "?det 6 = Some 60" "?det 8 = Some 80"
    by simp_all
  have first: "post_new_face_base64 ?det (empty_store :: nat store) ''user1'' ''Alice'' 2 3 4 7 =
      (Inr (SuccessMessage ''Successfully updated''),
       empty_store\<lparr>users := (users empty_store)(''user1'' \<mapsto>
          \<lparr>userId = ''user1'',
           faces = [\<lparr>face_id = 7, label = ''Alice'', descriptions = [20, 30, 40]\<rparr>]\<rparr>)\<rparr>)"
    using enroll_appends_one_template [of ?det 2 20 3 30 4 40 "empty_store :: nat store"
        "''user1''" "''Alice''" 7, OF d1] none
    by blast
  then have rec: "users ?s1 ''user1'' = Some \<lparr>userId = ''user1'',
       faces = [\<lparr>face_id = 7, label = ''Alice'', descriptions = [20, 30, 40]\<rparr>]\<rparr>"
    by simp
  have second: "post_new_face_base64 ?det ?s1 ''user1'' ''Alice'' 5 6 8 9 =
      (Inr (SuccessMessage ''Successfully updated''),
       ?s1\<lparr>users := (users ?s1)(''user1'' \<mapsto>
          \<lparr>userId = ''user1'',
           faces = [\<lparr>face_id = 7, label = ''Alice'', descriptions = [20, 30, 40]\<rparr>]\<rparr>
          \<lparr>faces := faces \<lparr>userId = ''user1'',
           faces = [\<lparr>face_id = 7, label = ''Alice'', descriptions = [20, 30, 40]\<rparr>]\<rparr> @
             [\<lparr>face_id = 9, label = ''Alice'', descriptions = [50, 60, 80]\<rparr>]\<rparr>)\<rparr>)"
    using enroll_appends_one_template [of ?det 5 50 6 60 8 80 ?s1 "''user1''" "''Alice''" 9, OF d2] rec
    by blast
  show ?thesis
    by (simp add: second templates_def)
qed

text \<open>
  C8, as the code has it. DeleteFace fails with Unauthorized (status 401, "No user
  found."), changing nothing, when no user record exists for \<open>userId\<close>. Otherwise it
  succeeds and the user's collection becomes the templates whose identifier differs from
  \<open>faceId\<close>, in their order; nothing else changes, and when no template has the identifier
  \<open>faceId\<close> the whole store is as before.
\<close>

theorem delete_face_cases:
  "(users s uid = None \<longrightarrow>
      post_delete_face s uid faceId = (Inl (ExpressError ''No user found.'' (Some 401)), s)) \<and>
   response_status (ExpressError ''No user found.'' (Some 401)) = 401 \<and>
   (\<forall>user. users s uid = Some user \<longrightarrow>
      post_delete_face s uid faceId =
        (Inr (Send ''Successfully deleted''),
         s\<lparr>users := (users s)(uid \<mapsto>
              user\<lparr>faces := filter (\<lambda>f. face_id f \<noteq> faceId) (faces user)\<rparr>)\<rparr>) \<and>
      templates (snd (post_delete_face s uid faceId)) uid =
        filter (\<lambda>f. face_id f \<noteq> faceId) (templates s uid) \<and>
      ((\<forall>f \<in> set (faces user). face_id f \<noteq> faceId) \<longrightarrow>
         snd (post_delete_face s uid faceId) = s))"
proof (cases "users s uid")
  case None
  then show ?thesis
    by (simp add: post_delete_face_def response_status_def)
next
  case (Some user)
  have same: "(\<forall>f \<in> set (faces user). face_id f \<noteq> faceId) \<Longrightarrow>
      s\<lparr>users := (users s)(uid \<mapsto>
          user\<lparr>faces := filter (\<lambda>f. face_id f \<noteq> faceId) (faces user)\<rparr>)\<rparr> = s"
  proof -
    assume "\<forall>f \<in> set (faces user). face_id f \<noteq> faceId"
    then have "filter (\<lambda>f. face_id f \<noteq> faceId) (faces user) = faces user"
      by (simp add: filter_id_conv)
    then have "(users s)(uid \<mapsto>
          user\<lparr>faces := filter (\<lambda>f. face_id f \<noteq> faceId) (faces user)\<rparr>) = users s"
      using Some by (simp add: map_upd_triv)
    then show ?thesis by simp
  qed
  show ?thesis
    using Some same
    by (simp add: post_delete_face_def templates_def response_status_def)
qed

theorem delete_face_cases_witness:
  "templates
     (snd (post_delete_face
        (empty_store\<lparr>users := [''user1'' \<mapsto> \<lparr>userId = ''user1'', faces =
           [\<lparr>face_id = 7, label = ''Alice'', descriptions = [20 :: nat]\<rparr>,
            \<lparr>face_id = 9, label = ''Bob'', descriptions = [50]\<rparr>]\<rparr>]\<rparr>)
        ''user1'' 7)) ''user1'' =
     [\<lparr>face_id = 9, label = ''Bob'', descriptions = [50 :: nat]\<rparr>] \<and>
   snd (post_delete_face
        (empty_store\<lparr>users := [''user1'' \<mapsto> \<lparr>userId = ''user1'', faces =
           [\<lparr>face_id = 7, label = ''Alice'', descriptions = [20 :: nat]\<rparr>,
            \<lparr>face_id = 9, label = ''Bob'', descriptions = [50]\<rparr>]\<rparr>]\<rparr>)
        ''user1'' 8) =
     empty_store\<lparr>users := [''user1'' \<mapsto> \<lparr>userId = ''user1'', faces =
           [\<lparr>face_id = 7, label = ''Alice'', descriptions = [20 :: nat]\<rparr>,
            \<lparr>face_id = 9, label = ''Bob'', descriptions = [50]\<rparr>]\<rparr>]\<rparr> \<and>
   post_delete_face (empty_store :: nat store) ''user1'' 7 =
     (Inl (ExpressError ''No user found.'' (Some 401)), empty_store)"
proof -
  let ?doc = "\<lparr>userId = ''user1'', faces =
           [\<lparr>face_id = 7, label = ''Alice'', descriptions = [20 :: nat]\<rparr>,
            \<lparr>face_id = 9, label = ''Bob'', descriptions = [50]\<rparr>]\<rparr>"
  let ?s = "empty_store\<lparr>users := [''user1'' \<mapsto> ?doc]\<rparr>"
  have rec: "users ?s ''user1'' = Some ?doc" by simp
  have none: "users (empty_store :: nat store) ''user1'' = None"
    by (simp add: empty_store_def)
  have before: "templates ?s ''user1'' = faces ?doc" by (simp add: templates_def)
  have nomatch: "\<forall>f \<in> set (faces ?doc). face_id f \<noteq> 8" by simp
  have a: "templates (snd (post_delete_face ?s ''user1'' 7)) ''user1'' =
      filter (\<lambda>f. face_id f \<noteq> 7) (templates ?s ''user1'')"
    using delete_face_cases [of ?s "''user1''" 7] rec by blast
  have b: "snd (post_delete_face ?s ''user1'' 8) = ?s"
    using delete_face_cases [of ?s "''user1''" 8] rec nomatch by blast
  have c: "post_delete_face (empty_store :: nat store) ''user1'' 7 =
     (Inl (ExpressError ''No user found.'' (Some 401)), empty_store)"
    using delete_face_cases [of "empty_store :: nat store" "''user1''" 7] none by blast
  show ?thesis
    using b c by (simp add: a before)
qed

text \<open>
  C8 as the claim words it fails: without a user record the error is not NotFound. It
  is the status-401 error "No user found.", the one RecogniseFace returns.
\<close>

theorem delete_face_no_user_is_401:
  "post_delete_face (empty_store :: nat store) ''user1'' 7 =
     (Inl (ExpressError ''No user found.'' (Some 401)), empty_store) \<and>
   response_status (ExpressError ''No user found.'' (Some 401)) = 401 \<and>
   response_status (ExpressError ''No user found.'' (Some 401)) \<noteq> 404"
  by (simp add: post_delete_face_def response_status_def empty_store_def)

section \<open>Properties of the matcher's failure path\<close>









end
